theory Spec2Isabelle
  imports Main
begin

section \<open>Python preliminaries\<close>

text \<open>
  Exceptions are values. A function of the source that may raise returns
  \<open>py_error + 'a\<close>, with \<open>Inl\<close> for the exception.
\<close>

datatype py_error =
    TypeError string
  | AttributeError string
  | RecursionError string
  | HandlerError string

text \<open>\<open>str(e)\<close> of an exception: its message.\<close>

definition str_error :: "py_error \<Rightarrow> string" where
  "str_error e =
     (case e of
        TypeError m \<Rightarrow> m
      | AttributeError m \<Rightarrow> m
      | RecursionError m \<Rightarrow> m
      | HandlerError m \<Rightarrow> m)"

text \<open>The message of the \<open>AttributeError\<close> for a missing attribute:
  \<open>'str' object has no attribute 'get'\<close>.\<close>

definition quoted :: "string \<Rightarrow> string" where
  "quoted s = [CHR 0x27] @ s @ [CHR 0x27]"

definition no_attribute :: "string \<Rightarrow> string \<Rightarrow> py_error" where
  "no_attribute type_name attr =
     AttributeError (quoted type_name @ '' object has no attribute '' @ quoted attr)"

text \<open>JSON values, as \<open>json.loads\<close> returns them and tool handlers receive them.\<close>

datatype json =
    JNull
  | JBool bool
  | JNum int
  | JStr string
  | JArr "json list"
  | JObj "(string \<times> json) list"

text \<open>
  What \<open>json.loads\<close> does with a string: it returns a value, raises
  \<open>JSONDecodeError\<close>, or raises another exception (\<open>RecursionError\<close> on input
  nested beyond the recursion limit).
\<close>

datatype loads_result = Loaded json | JSONDecodeError | LoadsRaises py_error

text \<open>
  \<open>str.lower()\<close> on the ASCII range: the letters A to Z move to a to z, every other
  byte is kept. Tool names are byte strings here; a space is the byte 32.
\<close>

definition lower_char :: "char \<Rightarrow> char" where
  "lower_char c =
     (case map_of (zip ''ABCDEFGHIJKLMNOPQRSTUVWXYZ'' ''abcdefghijklmnopqrstuvwxyz'') c of
        Some l \<Rightarrow> l
      | None \<Rightarrow> c)"

definition py_lower :: "string \<Rightarrow> string" where
  "py_lower s = map lower_char s"

text \<open>\<open>s.replace(" ", "")\<close>: every space is deleted.\<close>

definition replace_spaces :: "string \<Rightarrow> string" where
  "replace_spaces s = filter (\<lambda>c. c \<noteq> CHR '' '') s"

section \<open>Club call center: tool processor\<close>

text \<open>
  \<open>CallCenterToolProcessor\<close> of
  \<open>Retail_Agent/Club_Call_Center_Agent/core/tool_processor.py\<close>. The tool
  instances are the eight attributes set in \<open>__init__\<close>.
\<close>

datatype club_handler =
    verify_member_tool
  | check_store_hours_tool
  | check_inventory_tool
  | check_curbside_tool
  | check_specialty_tool
  | create_cake_tool
  | schedule_appointment_tool
  | check_appointment_tool

text \<open>
  The tool-use event handed to the processor as \<open>tool_content\<close>, a dictionary, by
  its \<open>content\<close> entry: absent, a string, or an object.
\<close>

datatype tool_content = NoContent | ContentStr string | ContentObj json

datatype tool_result = HandlerResult json | ErrorResult string

text \<open>The \<open>tool_handlers\<close> dictionary of \<open>_run_tool\<close>, key by key.\<close>

definition tool_handlers :: "(string \<times> club_handler) list" where
  "tool_handlers =
     [(''verifymembertool'', verify_member_tool),
      (''checkstorehours tool'', check_store_hours_tool),
      (''checkstorehoorstool'', check_store_hours_tool),
      (''checkinventorytool'', check_inventory_tool),
      (''checkcurbsideordertool'', check_curbside_tool),
      (''scheduleappointmenttool'', schedule_appointment_tool),
      (''checkspecialtyordertool'', check_specialty_tool),
      (''createcakeordertool'', create_cake_tool),
      (''checkappointmenttool'', check_appointment_tool)]"

definition normalize_tool_name :: "string \<Rightarrow> string" where
  "normalize_tool_name tool_name = replace_spaces (py_lower tool_name)"

text \<open>
  The content handed to the handler, \<open>tool_content.get("content", {})\<close>: a string is
  parsed by \<open>json.loads\<close> (the parameter \<open>loads\<close>), with \<open>{}\<close> on a
  \<open>JSONDecodeError\<close>, the only exception caught; a missing entry defaults to \<open>{}\<close>.
\<close>

definition content_data_of :: "(string \<Rightarrow> loads_result) \<Rightarrow> tool_content \<Rightarrow> py_error + json" where
  "content_data_of loads content =
     (case content of
        NoContent \<Rightarrow> Inr (JObj [])
      | ContentStr s \<Rightarrow>
          (case loads s of
             Loaded j \<Rightarrow> Inr j
           | JSONDecodeError \<Rightarrow> Inr (JObj [])
           | LoadsRaises e \<Rightarrow> Inl e)
      | ContentObj j \<Rightarrow> Inr j)"

text \<open>
  \<open>CallCenterToolProcessor._run_tool\<close>. The handlers' \<open>execute\<close> methods are the
  parameter \<open>execute\<close>. The content is parsed before the handler is looked up; an
  exception of the parser or of a handler leaves \<open>_run_tool\<close> as it is.
\<close>

definition club_run_tool ::
  "(string \<Rightarrow> loads_result) \<Rightarrow> (club_handler \<Rightarrow> json \<Rightarrow> py_error + json) \<Rightarrow>
   string \<Rightarrow> tool_content \<Rightarrow> py_error + tool_result" where
  "club_run_tool loads execute tool_name content =
     (let tool = normalize_tool_name tool_name
      in case content_data_of loads content of
           Inl e \<Rightarrow> Inl e
         | Inr content_data \<Rightarrow>
             (case map_of tool_handlers tool of
                Some handler \<Rightarrow>
                  (case execute handler content_data of
                     Inl e \<Rightarrow> Inl e
                   | Inr r \<Rightarrow> Inr (HandlerResult r))
              | None \<Rightarrow> Inr (ErrorResult (''Unsupported tool: '' @ tool_name))))"

section \<open>Banking: authentication manager\<close>

text \<open>
  \<open>BankingAuthenticationManager\<close> of \<open>Banking_Agent/core/authentication.py\<close>.
  Times are microseconds on the clock \<open>datetime.now()\<close> reads; an ISO string
  stored in a table is the time it encodes. Every operation reads the clock once:
  its argument \<open>now\<close>. The values \<open>random.randint\<close> and the identifier
  formats produce are arguments as well.
\<close>

definition AUTH_LEVEL_1 :: string where "AUTH_LEVEL_1 = ''Level1''"
definition AUTH_LEVEL_2 :: string where "AUTH_LEVEL_2 = ''Level2''"
definition AUTH_LEVEL_3 :: string where "AUTH_LEVEL_3 = ''Level3''"
definition AUDIT_RESULT_SUCCESS :: string where "AUDIT_RESULT_SUCCESS = ''SUCCESS''"
definition AUDIT_RESULT_FAILURE :: string where "AUDIT_RESULT_FAILURE = ''FAILURE''"
definition OTP_MIN_VALUE :: nat where "OTP_MIN_VALUE = 100000"
definition OTP_MAX_VALUE :: nat where "OTP_MAX_VALUE = 999999"

definition minutes :: "int \<Rightarrow> int" where
  "minutes m = m * 60000000"

text \<open>\<open>str(n)\<close> of a natural number: its decimal digits.\<close>

definition digit_char :: "nat \<Rightarrow> char" where
  "digit_char d = ''0123456789'' ! d"

function str_nat :: "nat \<Rightarrow> string" where
  "str_nat n = (if n < 10 then [digit_char n] else str_nat (n div 10) @ [digit_char (n mod 10)])"
  by pat_completeness auto
termination
  by (relation "measure (\<lambda>n. n)") auto

declare str_nat.simps [simp del]

text \<open>An item of the table \<open>Banking_AuthSessions\<close>, as \<open>create_session\<close> writes it.\<close>

record session =
  sessionId :: string
  customerId :: string
  phone :: string
  authLevel :: string
  authFactors :: "string list"
  mfaCompleted :: bool
  otpSent :: bool
  otpCode :: "string option"
  otpExpiry :: "int option"
  knowledgeAnswered :: "string list"
  sessionStart :: int
  lastActivity :: int
  expiresAt :: int
  ipAddress :: string
  jurisdiction :: string
  disclosureAcknowledged :: bool
  consentRecorded :: bool

text \<open>An item of \<open>Banking_Customers\<close>: the attributes the manager reads.\<close>

record customer =
  c_customerId :: string
  c_phone :: string
  c_jurisdiction :: "string option"
  securityQuestions :: "(string \<times> string) list"

text \<open>An item of \<open>Banking_AuditLogs\<close>, the \<open>log_entry\<close> of \<open>_audit_log\<close>.\<close>

record audit_entry =
  auditId :: string
  a_timestamp :: int
  a_customerId :: string
  a_sessionId :: string
  a_action :: string
  a_resource :: "string option"
  a_result :: string
  a_authLevel :: string
  a_ipAddress :: "string option"
  a_jurisdiction :: "string option"
  pii_accessed :: bool
  compliance_flags :: "string list"

text \<open>
  The manager's world: the configuration \<open>get_config()\<close> returns, the tables, and
  standard output. The customers table is the list \<open>scan\<close> returns its items in;
  the audit table is the sequence of its \<open>put_item\<close> calls.
\<close>

record bank =
  session_timeout_minutes :: int
  otp_expiry_minutes :: int
  debug_mode :: bool
  auth_sessions_table :: "string \<rightharpoonup> session"
  customers_table :: "customer list"
  audit_logs_table :: "audit_entry list"
  stdout :: "string list"

text \<open>The result dictionaries of \<open>send_otp\<close>, \<open>verify_otp\<close> and
  \<open>verify_knowledge_answer\<close>: \<open>otp\<close> is the key only \<open>send_otp\<close> sets.\<close>

record auth_result =
  success :: bool
  message :: string
  otp :: "string option"

definition get_session :: "int \<Rightarrow> bank \<Rightarrow> string \<Rightarrow> session option" where
  "get_session now b session_id =
     (case auth_sessions_table b session_id of
        None \<Rightarrow> None
      | Some session \<Rightarrow> if now > expiresAt session then None else Some session)"

text \<open>
  \<open>update_item\<close> with a \<open>SET\<close> expression on the sessions table. The source calls it
  on keys \<open>get_session\<close> has just returned; on a key the table does not hold, the
  table of this model stays as it is.
\<close>

definition update_session :: "string \<Rightarrow> (session \<Rightarrow> session) \<Rightarrow> bank \<Rightarrow> bank" where
  "update_session session_id upd b =
     (case auth_sessions_table b session_id of
        None \<Rightarrow> b
      | Some session \<Rightarrow>
          b\<lparr>auth_sessions_table := (auth_sessions_table b)(session_id \<mapsto> upd session)\<rparr>)"

definition update_last_activity :: "int \<Rightarrow> string \<Rightarrow> bank \<Rightarrow> bank" where
  "update_last_activity now session_id b =
     update_session session_id (\<lambda>s. s\<lparr>lastActivity := now\<rparr>) b"

definition print_line :: "string \<Rightarrow> bank \<Rightarrow> bank" where
  "print_line l b = b\<lparr>stdout := stdout b @ [l]\<rparr>"

text \<open>\<open>_audit_log\<close>; \<open>audit_id\<close> is the identifier its first statement builds.\<close>

definition audit_log ::
  "int \<Rightarrow> string \<Rightarrow> string \<Rightarrow> string \<Rightarrow> string \<Rightarrow> string option \<Rightarrow> string \<Rightarrow> string \<Rightarrow> bool \<Rightarrow>
   bank \<Rightarrow> bank" where
  "audit_log now audit_id session_id customer_id action resource result auth_level pii b =
     (let session = (if session_id \<noteq> [] then get_session now b session_id else None);
          log_entry = \<lparr>auditId = audit_id, a_timestamp = now, a_customerId = customer_id,
                       a_sessionId = session_id, a_action = action, a_resource = resource,
                       a_result = result, a_authLevel = auth_level,
                       a_ipAddress = map_option ipAddress session,
                       a_jurisdiction = map_option jurisdiction session,
                       pii_accessed = pii, compliance_flags = []\<rparr>;
          b1 = b\<lparr>audit_logs_table := audit_logs_table b @ [log_entry]\<rparr>
      in if debug_mode b1
         then print_line (''[AUDIT] '' @ action @ '' - '' @ result @ '' - Level: '' @ auth_level) b1
         else b1)"

text \<open>\<open>create_session\<close>; \<open>session_id\<close> is the identifier it builds.\<close>

definition create_session ::
  "int \<Rightarrow> string \<Rightarrow> string \<Rightarrow> string \<Rightarrow> bank \<Rightarrow> session option \<times> bank" where
  "create_session now session_id audit_id phone_no b =
     (case filter (\<lambda>c. c_phone c = phone_no) (customers_table b) of
        [] \<Rightarrow> (None, b)
      | cust # _ \<Rightarrow>
          (let session = \<lparr>sessionId = session_id, customerId = c_customerId cust,
                          phone = phone_no, authLevel = AUTH_LEVEL_1, authFactors = [''Phone''],
                          mfaCompleted = False, otpSent = False, otpCode = None,
                          otpExpiry = None, knowledgeAnswered = [], sessionStart = now,
                          lastActivity = now,
                          expiresAt = now + minutes (session_timeout_minutes b),
                          ipAddress = ''192.168.1.100'',
                          jurisdiction = (case c_jurisdiction cust of None \<Rightarrow> ''US'' | Some j \<Rightarrow> j),
                          disclosureAcknowledged = False, consentRecorded = False\<rparr>;
               b1 = b\<lparr>auth_sessions_table := (auth_sessions_table b)(session_id \<mapsto> session)\<rparr>
           in (Some session,
               audit_log now audit_id session_id (c_customerId cust) ''SESSION_CREATED'' None
                 AUDIT_RESULT_SUCCESS AUTH_LEVEL_1 False b1)))"

text \<open>\<open>send_otp\<close>; \<open>r\<close> is the value of \<open>random.randint(OTP_MIN_VALUE, OTP_MAX_VALUE)\<close>.\<close>

definition send_otp :: "int \<Rightarrow> nat \<Rightarrow> string \<Rightarrow> string \<Rightarrow> bank \<Rightarrow> auth_result \<times> bank" where
  "send_otp now r audit_id session_id b =
     (case get_session now b session_id of
        None \<Rightarrow> (\<lparr>success = False, message = ''Session not found or expired'', otp = None\<rparr>, b)
      | Some session \<Rightarrow>
          (let otp_code = str_nat r;
               otp_expiry = now + minutes (otp_expiry_minutes b);
               b1 = update_session session_id
                      (\<lambda>s. s\<lparr>otpSent := True, otpCode := Some otp_code,
                               otpExpiry := Some otp_expiry\<rparr>) b;
               b2 = print_line (''[SECURITY] OTP sent to '' @ phone session @ '': '' @ otp_code) b1;
               b3 = audit_log now audit_id session_id (customerId session) ''OTP_SENT'' None
                      AUDIT_RESULT_SUCCESS (authLevel session) False b2
           in (\<lparr>success = True, message = ''OTP sent to '' @ phone session,
                 otp = Some otp_code\<rparr>, b3)))"

text \<open>
  \<open>verify_otp\<close>. \<open>fromisoformat\<close> of a missing \<open>otpExpiry\<close> raises \<open>TypeError\<close>.
\<close>

definition verify_otp ::
  "int \<Rightarrow> string \<Rightarrow> string \<Rightarrow> string \<Rightarrow> bank \<Rightarrow> (py_error + auth_result) \<times> bank" where
  "verify_otp now audit_id session_id provided_otp b =
     (case get_session now b session_id of
        None \<Rightarrow>
          (Inr \<lparr>success = False, message = ''Session not found or expired'', otp = None\<rparr>, b)
      | Some session \<Rightarrow>
          if \<not> otpSent session
          then (Inr \<lparr>success = False, message = ''No OTP was sent'', otp = None\<rparr>, b)
          else
            (case otpExpiry session of
               None \<Rightarrow> (Inl (TypeError ''fromisoformat: argument must be str''), b)
             | Some otp_expiry \<Rightarrow>
                 if now > otp_expiry
                 then (Inr \<lparr>success = False,
                             message = ''OTP expired. Please request a new one.'',
                             otp = None\<rparr>, b)
                 else if Some provided_otp \<noteq> otpCode session
                 then (Inr \<lparr>success = False, message = ''Incorrect OTP'', otp = None\<rparr>,
                       audit_log now audit_id session_id (customerId session)
                         ''OTP_VERIFY_FAILED'' None AUDIT_RESULT_FAILURE (authLevel session)
                         False b)
                 else
                   (let b1 = update_session session_id
                               (\<lambda>s. s\<lparr>authLevel := AUTH_LEVEL_2, mfaCompleted := True,
                                        authFactors := [''Phone'', ''OTP'']\<rparr>) b
                    in (Inr \<lparr>success = True,
                              message = ''OTP verified. Authentication upgraded to Level 2.'',
                              otp = None\<rparr>,
                        audit_log now audit_id session_id (customerId session) ''OTP_VERIFIED''
                          None AUDIT_RESULT_SUCCESS AUTH_LEVEL_2 False b1))))"

text \<open>
  \<open>verify_knowledge_answer\<close>. \<open>sha256_hex\<close> stands for
  \<open>hashlib.sha256(answer.encode()).hexdigest()\<close>.
\<close>

definition verify_knowledge_answer ::
  "(string \<Rightarrow> string) \<Rightarrow> int \<Rightarrow> string \<Rightarrow> string \<Rightarrow> string \<Rightarrow> string \<Rightarrow> bank \<Rightarrow>
   auth_result \<times> bank" where
  "verify_knowledge_answer sha256_hex now audit_id session_id question_type answer b =
     (case get_session now b session_id of
        None \<Rightarrow> (\<lparr>success = False, message = ''Session not found or expired'', otp = None\<rparr>, b)
      | Some session \<Rightarrow>
          (case find (\<lambda>c. c_customerId c = customerId session) (customers_table b) of
             None \<Rightarrow> (\<lparr>success = False, message = ''Customer not found'', otp = None\<rparr>, b)
           | Some cust \<Rightarrow>
               (let hashed_answer = sha256_hex answer;
                    stored_hash = map_of (securityQuestions cust) question_type
                in if Some hashed_answer \<noteq> stored_hash
                   then (\<lparr>success = False, message = ''Incorrect answer'', otp = None\<rparr>,
                         audit_log now audit_id session_id (customerId session)
                           ''KNOWLEDGE_AUTH_FAILED'' None AUDIT_RESULT_FAILURE
                           (authLevel session) False b)
                   else
                     (let b1 = update_session session_id
                                 (\<lambda>s. s\<lparr>authLevel := AUTH_LEVEL_3,
                                          knowledgeAnswered := knowledgeAnswered s @ [question_type],
                                          authFactors := [''Phone'', ''OTP'', ''Knowledge'']\<rparr>) b
                      in (\<lparr>success = True,
                            message = ''Knowledge verification successful. Authentication upgraded to Level 3.'',
                            otp = None\<rparr>,
                          audit_log now audit_id session_id (customerId session)
                            ''KNOWLEDGE_AUTH_SUCCESS'' None AUDIT_RESULT_SUCCESS AUTH_LEVEL_3
                            False b1)))))"

text \<open>The dictionary \<open>level_hierarchy\<close> with its default: \<open>level_hierarchy.get(l, 0)\<close>.\<close>

definition level_hierarchy :: "string \<Rightarrow> nat" where
  "level_hierarchy l =
     (case map_of [(AUTH_LEVEL_1, 1), (AUTH_LEVEL_2, 2), (AUTH_LEVEL_3, 3)] l of
        None \<Rightarrow> 0 | Some n \<Rightarrow> n)"

text \<open>
  \<open>BankingAuthenticationManager.check_auth_level\<close>: the triple
  \<open>(authorized, message, current_level)\<close> and the world after it.
\<close>

definition check_auth_level ::
  "int \<Rightarrow> string \<Rightarrow> string \<Rightarrow> bank \<Rightarrow> (bool \<times> string \<times> string option) \<times> bank" where
  "check_auth_level now session_id required_level b =
     (case get_session now b session_id of
        None \<Rightarrow>
          ((False, ''Session not found or expired. Please authenticate again.'', None), b)
      | Some session \<Rightarrow>
          (let current_level = authLevel session
           in if level_hierarchy current_level \<ge> level_hierarchy required_level
              then ((True, ''Authorized at '' @ current_level, Some current_level),
                    update_last_activity now session_id b)
              else if required_level = AUTH_LEVEL_2 \<and> current_level = AUTH_LEVEL_1
              then ((False,
                     ''This operation requires multi-factor authentication. Please verify the OTP we are sending to your phone.'',
                     Some current_level), b)
              else if required_level = AUTH_LEVEL_3
              then (if current_level = AUTH_LEVEL_1
                    then ((False,
                           ''This high-risk operation requires enhanced authentication. Please verify the OTP and answer a security question.'',
                           Some current_level), b)
                    else ((False,
                           ''This high-risk operation requires additional verification. Please answer a security question.'',
                           Some current_level), b))
              else ((False,
                     ''Insufficient authentication level. Current: '' @ current_level @
                       '', Required: '' @ required_level,
                     Some current_level), b)))"

section \<open>Banking: the tools' authorization check\<close>



section \<open>Healthcare: audit logger and session manager\<close>

text \<open>
  \<open>AuditLogger\<close> of \<open>Healthcare_Agent/security/audit_logger.py\<close> and
  \<open>SessionManager\<close> of \<open>Healthcare_Agent/security/session_manager.py\<close>. Two library
  functions are parameters, kept together: \<open>sha256_hexdigest\<close> for
  \<open>hashlib.sha256(s.encode()).hexdigest()\<close> and \<open>isoformat\<close> for
  \<open>datetime.isoformat()\<close>. Times are microseconds on the clock \<open>utcnow()\<close> reads.
\<close>

record pylib =
  sha256_hexdigest :: "string \<Rightarrow> string"
  isoformat :: "int \<Rightarrow> string"

definition SESSION_TIMEOUT_MINUTES :: int where "SESSION_TIMEOUT_MINUTES = 15"
definition SESSION_WARNING_MINUTES :: int where "SESSION_WARNING_MINUTES = 13"

definition days :: "int \<Rightarrow> int" where
  "days d = d * 86400000000"

text \<open>An item of the audit table, the \<open>audit_entry\<close> dictionary of \<open>log_event\<close>.\<close>

record hc_audit_entry =
  auditLogId :: string
  timestamp :: string
  eventType :: string
  userId :: string
  h_sessionId :: string
  action :: string
  resourceType :: "string option"
  resourceId :: "string option"
  phiAccessed :: bool
  h_success :: bool
  h_ipAddress :: "string option"
  details :: "json option"
  tamperHash :: string
  retentionDate :: string

text \<open>\<open>f"{user_id}"\<close> for an optional string: \<open>None\<close> prints as \<open>None\<close>.\<close>

definition fmt_opt :: "string option \<Rightarrow> string" where
  "fmt_opt u = (case u of None \<Rightarrow> ''None'' | Some s \<Rightarrow> s)"

text \<open>The string \<open>hash_data\<close> that \<open>log_event\<close> hashes.\<close>

definition hash_data ::
  "string \<Rightarrow> string \<Rightarrow> string \<Rightarrow> string \<Rightarrow> string option \<Rightarrow> string \<Rightarrow> string" where
  "hash_data audit_log_id ts event_type act user_id session_id =
     audit_log_id @ ts @ event_type @ act @ fmt_opt user_id @ session_id"

text \<open>
  \<open>AuditLogger.log_event\<close>: the audit table is the sequence of its \<open>put_item\<close>
  calls. \<open>audit_log_id\<close> is the identifier the first statement builds;
  \<open>json.dumps\<close> of the details is left out, the stored value is the details
  themselves (\<open>None\<close> when they are absent or empty).
\<close>

definition log_event ::
  "pylib \<Rightarrow> int \<Rightarrow> string \<Rightarrow> string \<Rightarrow> string option \<Rightarrow> string \<Rightarrow> string \<Rightarrow>
   string option \<Rightarrow> string option \<Rightarrow> bool \<Rightarrow> bool \<Rightarrow> json option \<Rightarrow> string option \<Rightarrow>
   hc_audit_entry list \<Rightarrow> string \<times> hc_audit_entry list" where
  "log_event lib now audit_log_id event_type user_id session_id act resource_type resource_id
     phi_accessed succ dets ip_address audit_table =
     (let ts = isoformat lib now @ ''Z'';
          tamper_hash = sha256_hexdigest lib
                          (hash_data audit_log_id ts event_type act user_id session_id);
          entry = \<lparr>auditLogId = audit_log_id, timestamp = ts, eventType = event_type,
                   userId = (case user_id of None \<Rightarrow> ''ANONYMOUS''
                             | Some u \<Rightarrow> if u = [] then ''ANONYMOUS'' else u),
                   h_sessionId = session_id, action = act, resourceType = resource_type,
                   resourceId = resource_id, phiAccessed = phi_accessed, h_success = succ,
                   h_ipAddress = ip_address,
                   details = (case dets of None \<Rightarrow> None
                              | Some d \<Rightarrow> if d = JObj [] then None else Some d),
                   tamperHash = tamper_hash,
                   retentionDate = isoformat lib (now + days (365 * 6)) @ ''Z''\<rparr>
      in (audit_log_id, audit_table @ [entry]))"

definition log_session_event ::
  "pylib \<Rightarrow> int \<Rightarrow> string \<Rightarrow> string \<Rightarrow> string \<Rightarrow> string option \<Rightarrow>
   hc_audit_entry list \<Rightarrow> string \<times> hc_audit_entry list" where
  "log_session_event lib now audit_log_id session_id event user_id audit_table =
     log_event lib now audit_log_id ''SESSION'' user_id session_id event None None False True
       None None audit_table"

text \<open>An item of the sessions table, as \<open>SessionManager.create_session\<close> writes it,
  with the two attributes \<open>terminate_session\<close> adds.\<close>

record hc_session =
  hs_sessionId :: string
  createdAt :: int
  hs_lastActivity :: int
  hs_expiresAt :: int
  warningAt :: int
  verified :: bool
  verificationLevel :: int
  hs_userId :: "string option"
  consentGiven :: bool
  hs_ipAddress :: "string option"
  active :: bool
  terminatedAt :: "int option"
  terminationReason :: "string option"

record clinic =
  sessions_table :: "string \<rightharpoonup> hc_session"
  audit_table :: "hc_audit_entry list"

text \<open>
  \<open>update_item\<close> with a \<open>SET\<close> expression on the sessions table; on a key the table
  does not hold, the table of this model stays as it is.
\<close>

definition hc_update_item :: "string \<Rightarrow> (hc_session \<Rightarrow> hc_session) \<Rightarrow> clinic \<Rightarrow> clinic" where
  "hc_update_item session_id upd w =
     (case sessions_table w session_id of
        None \<Rightarrow> w
      | Some session \<Rightarrow> w\<lparr>sessions_table := (sessions_table w)(session_id \<mapsto> upd session)\<rparr>)"

text \<open>In the operations below \<open>audit_log_id\<close> is the identifier \<open>log_event\<close> builds
  when the operation calls it, \<open>session_id\<close> in \<open>hc_create_session\<close> the one it builds.\<close>

definition hc_log_session_event ::
  "pylib \<Rightarrow> int \<Rightarrow> string \<Rightarrow> string \<Rightarrow> string \<Rightarrow> string option \<Rightarrow> clinic \<Rightarrow> clinic" where
  "hc_log_session_event lib now audit_log_id session_id event user_id w =
     w\<lparr>audit_table := snd (log_session_event lib now audit_log_id session_id event user_id
                            (audit_table w))\<rparr>"

definition hc_create_session ::
  "pylib \<Rightarrow> int \<Rightarrow> string \<Rightarrow> string \<Rightarrow> string option \<Rightarrow> clinic \<Rightarrow> hc_session \<times> clinic" where
  "hc_create_session lib now session_id audit_log_id ip_address w =
     (let session = \<lparr>hs_sessionId = session_id, createdAt = now, hs_lastActivity = now,
                     hs_expiresAt = now + minutes SESSION_TIMEOUT_MINUTES,
                     warningAt = now + minutes SESSION_WARNING_MINUTES,
                     verified = False, verificationLevel = 0, hs_userId = None,
                     consentGiven = False, hs_ipAddress = ip_address, active = True,
                     terminatedAt = None, terminationReason = None\<rparr>;
          w1 = w\<lparr>sessions_table := (sessions_table w)(session_id \<mapsto> session)\<rparr>
      in (session, hc_log_session_event lib now audit_log_id session_id ''SESSION_CREATED'' None w1))"

definition terminate_session ::
  "pylib \<Rightarrow> int \<Rightarrow> string \<Rightarrow> string \<Rightarrow> string \<Rightarrow> clinic \<Rightarrow> bool \<times> clinic" where
  "terminate_session lib now audit_log_id session_id reason w =
     (let w1 = hc_update_item session_id
                 (\<lambda>s. s\<lparr>active := False, terminatedAt := Some now,
                          terminationReason := Some reason\<rparr>) w;
          session = sessions_table w1 session_id
      in (True,
          hc_log_session_event lib now audit_log_id session_id ''SESSION_TERMINATED''
            (case session of None \<Rightarrow> None | Some s \<Rightarrow> hs_userId s) w1))"

definition hc_get_session ::
  "pylib \<Rightarrow> int \<Rightarrow> string \<Rightarrow> string \<Rightarrow> clinic \<Rightarrow> hc_session option \<times> clinic" where
  "hc_get_session lib now audit_log_id session_id w =
     (case sessions_table w session_id of
        None \<Rightarrow> (None, w)
      | Some session \<Rightarrow>
          if now > hs_expiresAt session
          then (None, snd (terminate_session lib now audit_log_id session_id ''TIMEOUT'' w))
          else (Some session, w))"

definition update_activity ::
  "pylib \<Rightarrow> int \<Rightarrow> string \<Rightarrow> string \<Rightarrow> clinic \<Rightarrow> bool \<times> clinic" where
  "update_activity lib now audit_log_id session_id w =
     (case hc_get_session lib now audit_log_id session_id w of
        (None, w1) \<Rightarrow> (False, w1)
      | (Some session, w1) \<Rightarrow>
          (let new_expires_at = now + minutes SESSION_TIMEOUT_MINUTES;
               new_warning_at = now + minutes SESSION_WARNING_MINUTES
           in (True,
               hc_update_item session_id
                 (\<lambda>s. s\<lparr>hs_lastActivity := now, hs_expiresAt := new_expires_at,
                          warningAt := new_warning_at\<rparr>) w1)))"

definition set_verified ::
  "pylib \<Rightarrow> int \<Rightarrow> string \<Rightarrow> string \<Rightarrow> string \<Rightarrow> int \<Rightarrow> clinic \<Rightarrow> bool \<times> clinic" where
  "set_verified lib now audit_log_id session_id user_id verification_level w =
     (let w1 = hc_update_item session_id
                 (\<lambda>s. s\<lparr>verified := True, hs_userId := Some user_id,
                          verificationLevel := verification_level\<rparr>) w
      in (True,
          hc_log_session_event lib now audit_log_id session_id ''SESSION_VERIFIED''
            (Some user_id) w1))"

section \<open>Club call center: stream manager and audio streamer\<close>

text \<open>
  \<open>BedrockStreamManager\<close> of
  \<open>Retail_Agent/Club_Call_Center_Agent/streaming/bedrock_manager.py\<close> and
  \<open>AudioStreamer\<close> of \<open>streaming/audio_streamer.py\<close> beside it. The manager's
  coroutines share its attributes; each function below is one uninterrupted piece
  of one coroutine, from one suspension (\<open>await\<close>) to the next, and an interleaving
  of the coroutines is a sequence of these functions applied to the state.
\<close>

text \<open>The \<open>additionalModelFields\<close> of a content start: absent, not JSON, or the value
  of its \<open>generationStage\<close>.\<close>

datatype additional_fields = NoAdditionalFields | MalformedFields | GenerationStage "string option"

text \<open>A response, by the key of its \<open>event\<close> dictionary that the manager looks for;
  an audio output carries the decoded bytes.\<close>

datatype club_event =
    CompletionStart
  | ContentStart string additional_fields
  | TextOutput string string
  | AudioOutput string
  | ToolUse string string tool_content
  | ContentEnd "string option"
  | CompletionEnd
  | UsageEvent
  | OtherEvent

text \<open>The three events sent for a tool's result: content start (content name, tool
  use id), the result, content end.\<close>

datatype sent_event =
    ToolContentStart string string
  | ToolResultEvent string tool_result
  | ToolContentEnd string

text \<open>
  A task created by \<open>handle_tool_request\<close>: the arguments of its coroutine
  \<open>_execute_tool_and_send_result\<close>. The tool content is \<open>None\<close> when no tool-use
  event has arrived yet and the manager still holds the empty string.
\<close>

record tool_task =
  task_tool_name :: string
  task_tool_content :: "tool_content option"
  task_tool_use_id :: string

text \<open>
  Where the coroutine \<open>play_output_audio\<close> stands: at the head of its loop; inside
  \<open>await asyncio.wait_for(queue.get(), timeout=0.1)\<close>; or in its \<open>for\<close> loop with
  the chunks of the item it has taken that are still to be written.
\<close>

datatype player_pos = LoopHead | InGet | Writing "string list"

record club_stream =
  is_active :: bool
  barge_in :: bool
  display_assistant_text :: bool
  role :: "string option"
  toolUseContent :: "tool_content option"
  toolName :: string
  toolUseId :: string
  audio_output_queue :: "string list"
  output_queue :: "club_event list"
  pending_tool_tasks :: "string \<rightharpoonup> tool_task"
  sent_events :: "sent_event list"
  console :: "string list"
  is_streaming :: bool
  played :: "string list"
  player :: player_pos

text \<open>\<open>pat in s\<close> for strings.\<close>

fun contains :: "string \<Rightarrow> string \<Rightarrow> bool" where
  "contains pat [] = (pat = [])"
| "contains pat (c # cs) = (take (length pat) (c # cs) = pat \<or> contains pat cs)"

text \<open>The marker of an interruption in a text output: \<open>{ "interrupted" : true }\<close>.\<close>

definition INTERRUPTED :: string where
  "INTERRUPTED = ''{ '' @ [CHR 0x22] @ ''interrupted'' @ [CHR 0x22] @ '' : true }''"

text \<open>\<open>handle_tool_request\<close>; \<open>tool_content_name\<close> is the UUID it draws. The task is
  created and stored, and not run.\<close>

definition handle_tool_request ::
  "string \<Rightarrow> string \<Rightarrow> tool_content option \<Rightarrow> string \<Rightarrow> club_stream \<Rightarrow> club_stream" where
  "handle_tool_request tool_content_name tool_name tool_content tool_use_id st =
     st\<lparr>pending_tool_tasks := (pending_tool_tasks st)(tool_content_name \<mapsto>
          \<lparr>task_tool_name = tool_name, task_tool_content = tool_content,
           task_tool_use_id = tool_use_id\<rparr>)\<rparr>"

text \<open>
  One turn of the loop of \<open>_process_responses\<close> on a response that decodes to an
  event; \<open>fresh_name\<close> is the UUID \<open>handle_tool_request\<close> draws if it is called.
\<close>

definition process_response :: "string \<Rightarrow> club_event \<Rightarrow> club_stream \<Rightarrow> club_stream" where
  "process_response fresh_name ev st =
     (if \<not> is_active st then st
      else
        (let st1 =
           (case ev of
              ContentStart r additional \<Rightarrow>
                (let st' = st\<lparr>role := Some r\<rparr>
                 in case additional of
                      NoAdditionalFields \<Rightarrow> st'
                    | MalformedFields \<Rightarrow> st'
                    | GenerationStage g \<Rightarrow>
                        st'\<lparr>display_assistant_text := (g = Some ''SPECULATIVE'')\<rparr>)
            | TextOutput text_content r \<Rightarrow>
                (let st' = (if contains INTERRUPTED text_content
                            then st\<lparr>barge_in := True\<rparr> else st)
                 in if role st' = Some ''ASSISTANT'' \<and> display_assistant_text st'
                    then st'\<lparr>console := console st' @ [''Assistant: '' @ text_content]\<rparr>
                    else if role st' = Some ''USER''
                    then st'\<lparr>console := console st' @ [''User: '' @ text_content]\<rparr>
                    else st')
            | AudioOutput audio_bytes \<Rightarrow>
                st\<lparr>audio_output_queue := audio_output_queue st @ [audio_bytes]\<rparr>
            | ToolUse name use_id content \<Rightarrow>
                st\<lparr>toolUseContent := Some content, toolName := name, toolUseId := use_id\<rparr>
            | ContentEnd ty \<Rightarrow>
                if ty = Some ''TOOL''
                then handle_tool_request fresh_name (toolName st) (toolUseContent st)
                       (toolUseId st) st
                else st
            | CompletionStart \<Rightarrow> st
            | CompletionEnd \<Rightarrow> st
            | UsageEvent \<Rightarrow> st
            | OtherEvent \<Rightarrow> st)
         in st1\<lparr>output_queue := output_queue st1 @ [ev]\<rparr>))"

text \<open>\<open>send_raw_event\<close>: nothing is sent on a stream that is not active; an exception
  of the transport is caught inside it.\<close>

definition send_raw_event :: "sent_event \<Rightarrow> club_stream \<Rightarrow> club_stream" where
  "send_raw_event ev st = (if is_active st then st\<lparr>sent_events := sent_events st @ [ev]\<rparr> else st)"

definition send_tool_events :: "string \<Rightarrow> string \<Rightarrow> tool_result \<Rightarrow> club_stream \<Rightarrow> club_stream" where
  "send_tool_events content_name tool_use_id res st =
     send_raw_event (ToolContentEnd content_name)
       (send_raw_event (ToolResultEvent content_name res)
          (send_raw_event (ToolContentStart content_name tool_use_id) st))"

text \<open>\<open>process_tool_async\<close> awaits \<open>_run_tool\<close>; on the empty string for the tool
  content, \<open>tool_content.get\<close> raises.\<close>

definition club_process_tool_async ::
  "(string \<Rightarrow> loads_result) \<Rightarrow> (club_handler \<Rightarrow> json \<Rightarrow> py_error + json) \<Rightarrow>
   string \<Rightarrow> tool_content option \<Rightarrow> py_error + tool_result" where
  "club_process_tool_async loads execute tool_name tool_content =
     (case tool_content of
        None \<Rightarrow> Inl (no_attribute ''str'' ''get'')
      | Some c \<Rightarrow> club_run_tool loads execute tool_name c)"

text \<open>\<open>_execute_tool_and_send_result\<close>, from start to end.\<close>

definition execute_tool_and_send_result ::
  "(string \<Rightarrow> loads_result) \<Rightarrow> (club_handler \<Rightarrow> json \<Rightarrow> py_error + json) \<Rightarrow>
   string \<Rightarrow> tool_content option \<Rightarrow> string \<Rightarrow> string \<Rightarrow> club_stream \<Rightarrow> club_stream" where
  "execute_tool_and_send_result loads execute tool_name tool_content tool_use_id content_name st =
     (case club_process_tool_async loads execute tool_name tool_content of
        Inr tool_result \<Rightarrow> send_tool_events content_name tool_use_id tool_result st
      | Inl e \<Rightarrow>
          send_tool_events content_name tool_use_id
            (ErrorResult (''Tool execution failed: '' @ str_error e)) st)"

text \<open>A pending task run to its end, and its done callback
  \<open>_handle_tool_task_completion\<close>, which removes it from \<open>pending_tool_tasks\<close>.\<close>

definition run_tool_task ::
  "(string \<Rightarrow> loads_result) \<Rightarrow> (club_handler \<Rightarrow> json \<Rightarrow> py_error + json) \<Rightarrow>
   string \<Rightarrow> club_stream \<Rightarrow> club_stream" where
  "run_tool_task loads execute content_name st =
     (case pending_tool_tasks st content_name of
        None \<Rightarrow> st
      | Some t \<Rightarrow>
          (let st1 = execute_tool_and_send_result loads execute (task_tool_name t)
                       (task_tool_content t) (task_tool_use_id t) content_name st
           in st1\<lparr>pending_tool_tasks := (pending_tool_tasks st1)(content_name := None)\<rparr>))"

text \<open>The loop of \<open>_process_responses\<close> over a sequence of responses, each with the
  UUID drawn if it leads to \<open>handle_tool_request\<close>.\<close>

fun process_responses :: "(string \<times> club_event) list \<Rightarrow> club_stream \<Rightarrow> club_stream" where
  "process_responses [] st = st"
| "process_responses ((fresh_name, ev) # rest) st =
     process_responses rest (process_response fresh_name ev st)"








section \<open>Banking: tool processor and stream manager\<close>

text \<open>
  \<open>BankingToolProcessor._run_tool\<close> of \<open>Banking_Agent/core/tool_processor.py\<close> and
  \<open>BedrockStreamManager.process_stream_events\<close> of
  \<open>Banking_Agent/streaming/bedrock_manager.py\<close>. The tool classes are the values
  of the dictionary \<open>self.tools\<close>; the dictionary itself is the parameter \<open>tools\<close>.
\<close>

datatype bank_tool =
    AuthenticateTool | VerifyOtpTool | StepUpAuthenticationTool
  | CheckBalanceTool | ViewRecentTransactionsTool | SearchTransactionsTool
  | RequestStatementTool
  | ReportLostCardTool | FreezeCardTool | UnfreezeCardTool | CheckReplacementStatusTool
  | DisputeChargeTool | ClarifyMerchantTool
  | InternalTransferTool | CheckZelleStatusTool | SetupBillpayTool | StopPaymentTool
  | ExplainPendingTool
  | ReportFraudTool | CheckDisputeStatusTool | ExplainProvisionalCreditTool

definition TOOL_AUTHENTICATE :: string where "TOOL_AUTHENTICATE = ''authenticatetool''"

text \<open>\<open>result.get(k)\<close>: only a dictionary has \<open>get\<close>.\<close>

definition json_get :: "json \<Rightarrow> string \<Rightarrow> py_error + json option" where
  "json_get j k =
     (case j of
        JObj kv \<Rightarrow> Inr (map_of kv k)
      | JNull \<Rightarrow> Inl (no_attribute ''NoneType'' ''get'')
      | JBool b \<Rightarrow> Inl (no_attribute ''bool'' ''get'')
      | JNum n \<Rightarrow> Inl (no_attribute ''int'' ''get'')
      | JStr t \<Rightarrow> Inl (no_attribute ''str'' ''get'')
      | JArr xs \<Rightarrow> Inl (no_attribute ''list'' ''get''))"

text \<open>The truth value of \<open>d.get(k)\<close>.\<close>

definition json_truthy :: "json option \<Rightarrow> bool" where
  "json_truthy v =
     (case v of
        None \<Rightarrow> False
      | Some JNull \<Rightarrow> False
      | Some (JBool b) \<Rightarrow> b
      | Some (JNum n) \<Rightarrow> n \<noteq> 0
      | Some (JStr s) \<Rightarrow> s \<noteq> []
      | Some (JArr xs) \<Rightarrow> xs \<noteq> []
      | Some (JObj kv) \<Rightarrow> kv \<noteq> [])"

text \<open>
  \<open>BankingToolProcessor._run_tool\<close>: its result or exception, and the processor's
  \<open>current_session_id\<close> after it. \<open>execute\<close> gets the tool, the session id set on
  it, and the content.
\<close>

definition bank_run_tool ::
  "(string \<Rightarrow> loads_result) \<Rightarrow> (string \<rightharpoonup> bank_tool) \<Rightarrow>
   (bank_tool \<Rightarrow> json option \<Rightarrow> json \<Rightarrow> py_error + json) \<Rightarrow>
   string \<Rightarrow> tool_content \<Rightarrow> json option \<Rightarrow> (py_error + tool_result) \<times> json option" where
  "bank_run_tool loads tools execute tool_name content cur =
     (let tool = normalize_tool_name tool_name
      in case content_data_of loads content of
           Inl e \<Rightarrow> (Inl e, cur)
         | Inr content_data \<Rightarrow>
             (case tools tool of
                Some tool_instance \<Rightarrow>
                  (case execute tool_instance cur content_data of
                     Inl e \<Rightarrow> (Inl e, cur)
                   | Inr result \<Rightarrow>
                       if tool = TOOL_AUTHENTICATE
                       then (case json_get result ''authenticated'' of
                               Inl e \<Rightarrow> (Inl e, cur)
                             | Inr a \<Rightarrow>
                                 if json_truthy a
                                 then (case json_get result ''sessionId'' of
                                         Inl e \<Rightarrow> (Inl e, cur)
                                       | Inr new_id \<Rightarrow> (Inr (HandlerResult result), new_id))
                                 else (Inr (HandlerResult result), cur))
                       else (Inr (HandlerResult result), cur))
              | None \<Rightarrow> (Inr (ErrorResult (''Unsupported tool: '' @ tool_name)), cur)))"

text \<open>An item of \<open>modelOutput["content"]\<close>: audio with its decoded data, or another.\<close>

datatype content_item = AudioItem string | OtherItem

record bank_tool_use =
  tu_name :: string
  tu_toolUseId :: string
  tu_input :: tool_content

text \<open>An event of the stream: a payload with \<open>modelOutput\<close> (its content items and its
  \<open>toolUse\<close>, if any), or anything else.\<close>

datatype bank_event = ModelOutput "content_item list" "bank_tool_use option" | OtherPayload

text \<open>
  Where the coroutine \<open>process_stream_events\<close> stands: at its \<open>async for\<close>, waiting
  for the next event; inside \<open>await self.tool_processor.process_tool_async(...)\<close>
  for a tool use; or left by an exception.
\<close>

datatype pump_status = Pumping | AwaitingTool bank_tool_use | Stopped py_error

record bank_stream =
  pump :: pump_status
  unread :: "bank_event list"
  bs_output_queue :: "string list"
  bs_sent :: "(string \<times> tool_result) list"
  current_session_id :: "json option"

fun audio_of :: "content_item \<Rightarrow> string list" where
  "audio_of (AudioItem d) = [d]"
| "audio_of OtherItem = []"

text \<open>
  \<open>process_stream_events\<close> from its \<open>async for\<close> to its next suspension: it takes the
  next unread event, queues the audio, and on a tool use enters the \<open>await\<close> of the
  tool processor. While it stands in that \<open>await\<close> it takes no event.
\<close>

definition process_stream_events :: "bank_stream \<Rightarrow> bank_stream" where
  "process_stream_events st =
     (case pump st of
        Pumping \<Rightarrow>
          (case unread st of
             [] \<Rightarrow> st
           | ev # rest \<Rightarrow>
               (let st1 = st\<lparr>unread := rest\<rparr>
                in case ev of
                     OtherPayload \<Rightarrow> st1
                   | ModelOutput items tool_use \<Rightarrow>
                       (let st2 = st1\<lparr>bs_output_queue :=
                                        bs_output_queue st1 @ concat (map audio_of items)\<rparr>
                        in case tool_use of
                             None \<Rightarrow> st2
                           | Some tu \<Rightarrow> st2\<lparr>pump := AwaitingTool tu\<rparr>)))
      | AwaitingTool tu \<Rightarrow> st
      | Stopped e \<Rightarrow> st)"

text \<open>
  The \<open>await\<close> of the tool processor ends: with a result, which is sent back as a
  tool result event, the loop going on; or with the exception \<open>_run_tool\<close> let
  through, which nothing in \<open>process_tool_async\<close> or \<open>process_stream_events\<close>
  catches.
\<close>

definition tool_await_ends ::
  "(string \<Rightarrow> loads_result) \<Rightarrow> (string \<rightharpoonup> bank_tool) \<Rightarrow>
   (bank_tool \<Rightarrow> json option \<Rightarrow> json \<Rightarrow> py_error + json) \<Rightarrow> bank_stream \<Rightarrow> bank_stream" where
  "tool_await_ends loads tools execute st =
     (case pump st of
        AwaitingTool tu \<Rightarrow>
          (case bank_run_tool loads tools execute (tu_name tu) (tu_input tu)
                  (current_session_id st) of
             (Inl e, cur) \<Rightarrow> st\<lparr>pump := Stopped e, current_session_id := cur\<rparr>
           | (Inr result, cur) \<Rightarrow>
               st\<lparr>pump := Pumping, current_session_id := cur,
                  bs_sent := bs_sent st @ [(tu_toolUseId tu, result)]\<rparr>)
      | Pumping \<Rightarrow> st
      | Stopped e \<Rightarrow> st)"

text \<open>The network delivers an event to the stream.\<close>

definition deliver :: "bank_event \<Rightarrow> bank_stream \<Rightarrow> bank_stream" where
  "deliver ev st = st\<lparr>unread := unread st @ [ev]\<rparr>"

section \<open>Example worlds\<close>

text \<open>
  A bank with one customer and the default configuration (30 minutes session
  timeout, 5 minutes for a code), and the same bank after \<open>create_session\<close> at
  time 0. \<open>example_sha\<close> stands in for SHA-256 in examples: it is injective.
\<close>

definition example_sha :: "string \<Rightarrow> string" where
  "example_sha s = ''sha:'' @ s"

definition bank0 :: bank where
  "bank0 = \<lparr>session_timeout_minutes = 30, otp_expiry_minutes = 5, debug_mode = False,
            auth_sessions_table = Map.empty,
            customers_table =
              [\<lparr>c_customerId = ''CUST-1'', c_phone = ''555-0100'', c_jurisdiction = None,
                securityQuestions = [(''mothersMaidenName'', example_sha ''smith'')]\<rparr>],
            audit_logs_table = [], stdout = []\<rparr>"

definition bank1 :: bank where
  "bank1 = snd (create_session 0 ''SESSION-1'' ''AUDIT-0'' ''555-0100'' bank0)"

text \<open>The session \<open>create_session\<close> has written into \<open>bank1\<close>.\<close>

definition session1 :: session where
  "session1 =
     \<lparr>sessionId = ''SESSION-1'', customerId = ''CUST-1'', phone = ''555-0100'',
      authLevel = ''Level1'', authFactors = [''Phone''], mfaCompleted = False,
      otpSent = False, otpCode = None, otpExpiry = None, knowledgeAnswered = [],
      sessionStart = 0, lastActivity = 0, expiresAt = 1800000000,
      ipAddress = ''192.168.1.100'', jurisdiction = ''US'',
      disclosureAcknowledged = False, consentRecorded = False\<rparr>"

text \<open>
  A conversation on \<open>bank1\<close>: a code is sent at time 1 and verified at time 2, the
  security question is answered at time 3, and the same code is verified once more
  at time 4.
\<close>

definition bank2 :: bank where
  "bank2 = snd (send_otp 1 123456 ''AUDIT-1'' ''SESSION-1'' bank1)"

definition bank3 :: bank where
  "bank3 = snd (verify_otp 2 ''AUDIT-2'' ''SESSION-1'' ''123456'' bank2)"

definition bank4 :: bank where
  "bank4 = snd (verify_knowledge_answer example_sha 3 ''AUDIT-3'' ''SESSION-1''
                  ''mothersMaidenName'' ''smith'' bank3)"

definition bank5 :: bank where
  "bank5 = snd (verify_otp 4 ''AUDIT-4'' ''SESSION-1'' ''123456'' bank4)"

text \<open>A clinic with one session created at time 0; \<open>example_lib\<close> prints a time as its
  number of microseconds.\<close>

definition example_lib :: pylib where
  "example_lib = \<lparr>sha256_hexdigest = example_sha, isoformat = (\<lambda>t. str_nat (nat t))\<rparr>"

definition clinic0 :: clinic where
  "clinic0 = \<lparr>sessions_table = Map.empty, audit_table = []\<rparr>"

definition clinic1 :: clinic where
  "clinic1 = snd (hc_create_session example_lib 0 ''SES-1'' ''AUDIT-0'' None clinic0)"

text \<open>
  A club stream after \<open>initialize_stream\<close> and \<open>start_streaming\<close>, and the same
  stream after a tool use, the end of its content (which creates the task
  \<open>task-1\<close>) and three audio outputs. A banking stream at its start, a registry
  with two of the banking tools, and a tool use of the balance tool.
\<close>

definition club_stream0 :: club_stream where
  "club_stream0 =
     \<lparr>is_active = True, barge_in = False, display_assistant_text = False, role = None,
      toolUseContent = None, toolName = [], toolUseId = [], audio_output_queue = [],
      output_queue = [], pending_tool_tasks = Map.empty, sent_events = [], console = [],
      is_streaming = True, played = [], player = LoopHead\<rparr>"

definition club_stream1 :: club_stream where
  "club_stream1 =
     process_responses
       [(''n1'', ToolUse ''checkInventoryTool'' ''tu-1'' NoContent),
        (''task-1'', ContentEnd (Some ''TOOL'')),
        (''n3'', AudioOutput ''aa''), (''n4'', AudioOutput ''bb''), (''n5'', AudioOutput ''cc'')]
       club_stream0"

definition bank_stream0 :: bank_stream where
  "bank_stream0 = \<lparr>pump = Pumping, unread = [], bs_output_queue = [], bs_sent = [],
                    current_session_id = None\<rparr>"

definition example_tools :: "string \<rightharpoonup> bank_tool" where
  "example_tools = map_of [(''authenticatetool'', AuthenticateTool),
                           (''checkbalancetool'', CheckBalanceTool)]"

definition balance_use :: bank_tool_use where
  "balance_use = \<lparr>tu_name = ''checkBalanceTool'', tu_toolUseId = ''tu-1'', tu_input = NoContent\<rparr>"

text \<open>
  The banking stream after a tool-use event has been delivered and taken
  (\<open>bank_stream1\<close>), and after an audio event has been delivered behind it and the
  coroutine has had its turn (\<open>bank_stream2\<close>). A handler that raises, and one
  that returns a balance.
\<close>

definition bank_stream1 :: bank_stream where
  "bank_stream1 = process_stream_events (deliver (ModelOutput [] (Some balance_use)) bank_stream0)"

definition bank_stream2 :: bank_stream where
  "bank_stream2 =
     process_stream_events (deliver (ModelOutput [AudioItem ''aa''] None) bank_stream1)"

definition failing_execute :: "bank_tool \<Rightarrow> json option \<Rightarrow> json \<Rightarrow> py_error + json" where
  "failing_execute t cur content_data = Inl (HandlerError ''ServiceUnavailable'')"

definition ok_execute :: "bank_tool \<Rightarrow> json option \<Rightarrow> json \<Rightarrow> py_error + json" where
  "ok_execute t cur content_data = Inr (JObj [(''balance'', JStr ''100.00'')])"








section \<open>Facts about the example worlds\<close>

lemma bank1_session: "auth_sessions_table bank1 ''SESSION-1'' = Some session1"
  by (simp add: bank1_def bank0_def create_session_def audit_log_def get_session_def
      minutes_def AUTH_LEVEL_1_def session1_def Let_def)

lemma session1_fields [simp]:
  "expiresAt session1 = 1800000000" "authLevel session1 = ''Level1''"
  "customerId session1 = ''CUST-1''" "phone session1 = ''555-0100''"
  "otpSent session1 = False"
  by (simp_all add: session1_def)

lemma bank1_config:
  "session_timeout_minutes bank1 = 30 \<and> otp_expiry_minutes bank1 = 5 \<and> \<not> debug_mode bank1"
  by (simp add: bank1_def bank0_def create_session_def audit_log_def Let_def)

lemma clinic1_session:
  "sessions_table clinic1 ''SES-1'' =
     Some \<lparr>hs_sessionId = ''SES-1'', createdAt = 0, hs_lastActivity = 0,
           hs_expiresAt = 900000000, warningAt = 780000000, verified = False,
           verificationLevel = 0, hs_userId = None, consentGiven = False,
           hs_ipAddress = None, active = True, terminatedAt = None,
           terminationReason = None\<rparr>"
  by (simp add: clinic1_def clinic0_def hc_create_session_def hc_log_session_event_def
      minutes_def SESSION_TIMEOUT_MINUTES_def SESSION_WARNING_MINUTES_def Let_def)

lemma str_nat_123456: "str_nat 123456 = ''123456''"
  by (simp add: str_nat.simps digit_char_def)

section \<open>Banking: sessions and one-time codes\<close>

lemma stdout_audit_log:
  "l \<in> set (stdout b) \<Longrightarrow> l \<in> set (stdout (audit_log now aid sid cid act res r lvl pii b))"
  by (simp add: audit_log_def print_line_def Let_def)

lemma sessions_audit_log [simp]:
  "auth_sessions_table (audit_log now aid sid cid act res r lvl pii b) = auth_sessions_table b"
  by (simp add: audit_log_def print_line_def Let_def)

lemma sessions_print_line [simp]: "auth_sessions_table (print_line l b) = auth_sessions_table b"
  by (simp add: print_line_def)

lemma stdout_print_line [simp]: "stdout (print_line l b) = stdout b @ [l]"
  by (simp add: print_line_def)

lemma get_session_SomeD:
  "get_session now b sid = Some s \<Longrightarrow> auth_sessions_table b sid = Some s \<and> \<not> now > expiresAt s"
  by (auto simp: get_session_def split: option.splits if_splits)


lemma update_session_Some:
  "auth_sessions_table b sid = Some s \<Longrightarrow>
   auth_sessions_table (update_session sid upd b) = (auth_sessions_table b)(sid \<mapsto> upd s)"
  by (simp add: update_session_def)

lemma send_otp_Some:
  assumes "get_session now b sid = Some s"
  shows "send_otp now r aid sid b =
     (\<lparr>success = True, message = ''OTP sent to '' @ phone s, otp = Some (str_nat r)\<rparr>,
      audit_log now aid sid (customerId s) ''OTP_SENT'' None AUDIT_RESULT_SUCCESS (authLevel s) False
        (print_line (''[SECURITY] OTP sent to '' @ phone s @ '': '' @ str_nat r)
          (update_session sid (\<lambda>s. s\<lparr>otpSent := True, otpCode := Some (str_nat r),
               otpExpiry := Some (now + minutes (otp_expiry_minutes b))\<rparr>) b)))"
  using assms by (simp add: send_otp_def Let_def)

lemma send_otp_None:
  assumes "get_session now b sid = None"
  shows "send_otp now r aid sid b =
     (\<lparr>success = False, message = ''Session not found or expired'', otp = None\<rparr>, b)"
  using assms by (simp add: send_otp_def)

text \<open>
  C9. Every successful \<open>send_otp\<close> returns, under the key \<open>otp\<close>, the very code it
  has just stored as \<open>otpCode\<close> of the session (the decimal digits of the number
  drawn), and the same code is in a line printed on standard output.
\<close>

theorem send_otp_discloses_code:
  assumes "success (fst (send_otp now r aid sid b))"
  shows "\<exists>s s'. get_session now b sid = Some s \<and>
           otp (fst (send_otp now r aid sid b)) = Some (str_nat r) \<and>
           auth_sessions_table (snd (send_otp now r aid sid b)) sid = Some s' \<and>
           otpCode s' = otp (fst (send_otp now r aid sid b)) \<and>
           (''[SECURITY] OTP sent to '' @ phone s @ '': '' @ str_nat r)
              \<in> set (stdout (snd (send_otp now r aid sid b)))"
proof (cases "get_session now b sid")
  case None
  with assms show ?thesis by (simp add: send_otp_None)
next
  case (Some s)
  then have tbl: "auth_sessions_table b sid = Some s"
    by (simp add: get_session_SomeD)
  have "(''[SECURITY] OTP sent to '' @ phone s @ '': '' @ str_nat r)
          \<in> set (stdout (snd (send_otp now r aid sid b)))"
    by (simp add: send_otp_Some [OF Some] stdout_audit_log)
  then show ?thesis
    using Some tbl by (simp add: send_otp_Some [OF Some] update_session_Some)
qed

theorem send_otp_discloses_code_witness:
  "success (fst (send_otp 1 123456 ''AUDIT-1'' ''SESSION-1'' bank1)) \<and>
   otp (fst (send_otp 1 123456 ''AUDIT-1'' ''SESSION-1'' bank1)) = Some ''123456'' \<and>
   (\<exists>s'. auth_sessions_table (snd (send_otp 1 123456 ''AUDIT-1'' ''SESSION-1'' bank1))
            ''SESSION-1'' = Some s' \<and> otpCode s' = Some ''123456'')"
proof -
  have live: "get_session 1 bank1 ''SESSION-1'' \<noteq> None"
    by (simp add: get_session_def bank1_session)
  then have h: "success (fst (send_otp 1 123456 ''AUDIT-1'' ''SESSION-1'' bank1))"
    by (auto simp: send_otp_Some)
  from send_otp_discloses_code [OF h] show ?thesis
    using h by (auto simp: str_nat_123456)
qed

section \<open>Expired sessions\<close>

text \<open>
  C5. A stored session whose \<open>expiresAt\<close> lies before the time of the call is absent
  for \<open>get_session\<close>, in the banking manager and in the healthcare manager alike;
  the comparison is made inside \<open>get_session\<close>. The record itself stays in the
  table.
\<close>

theorem get_session_expired_is_absent:
  "(auth_sessions_table b sid = Some s \<and> expiresAt s < now \<longrightarrow>
      get_session now b sid = None) \<and>
   (sessions_table w hsid = Some hs \<and> hs_expiresAt hs < now \<longrightarrow>
      fst (hc_get_session lib now aid hsid w) = None \<and>
      sessions_table (snd (hc_get_session lib now aid hsid w)) hsid \<noteq> None)"
  by (simp add: get_session_def hc_get_session_def terminate_session_def hc_update_item_def
      hc_log_session_event_def Let_def)

theorem get_session_expired_is_absent_witness:
  "auth_sessions_table bank1 ''SESSION-1'' \<noteq> None \<and>
   get_session 1800000001 bank1 ''SESSION-1'' = None \<and>
   sessions_table clinic1 ''SES-1'' \<noteq> None \<and>
   fst (hc_get_session example_lib 1800000001 ''AUDIT-1'' ''SES-1'' clinic1) = None"
  using get_session_expired_is_absent
    [of bank1 "''SESSION-1''" session1 1800000001
        clinic1 "''SES-1''" "the (sessions_table clinic1 ''SES-1'')" example_lib "''AUDIT-1''"]
  by (simp add: bank1_session clinic1_session)

section \<open>Activity and expiry\<close>

lemma update_last_activity_expiresAt:
  "map_option expiresAt (auth_sessions_table (update_last_activity now sid b) sid') =
   map_option expiresAt (auth_sessions_table b sid')"
  by (simp add: update_last_activity_def update_session_def split: option.splits)

lemma level_hierarchy_values:
  "level_hierarchy ''Level1'' = 1" "level_hierarchy ''Level2'' = 2" "level_hierarchy ''Level3'' = 3"
  by (simp_all add: level_hierarchy_def AUTH_LEVEL_1_def AUTH_LEVEL_2_def AUTH_LEVEL_3_def)

lemma check_auth_level_authorized:
  assumes "get_session now b sid = Some s"
      and "level_hierarchy (authLevel s) \<ge> level_hierarchy required"
  shows "check_auth_level now sid required b =
           ((True, ''Authorized at '' @ authLevel s, Some (authLevel s)),
            update_last_activity now sid b)"
  using assms by (simp add: check_auth_level_def Let_def)

text \<open>
  C3, as the banking manager has it. \<open>update_last_activity\<close> writes \<open>lastActivity\<close>
  and nothing else: no \<open>expiresAt\<close> in the table changes. A session created at
  time 0 with the 30 minutes timeout and authorized again after 10 minutes still
  expires at minute 30, not at minute 40, and is absent just after minute 30.
\<close>

theorem update_last_activity_keeps_expiry:
  "map_option expiresAt (auth_sessions_table (update_last_activity now sid b) sid') =
     map_option expiresAt (auth_sessions_table b sid') \<and>
   fst (check_auth_level 600000000 ''SESSION-1'' AUTH_LEVEL_1 bank1) =
     (True, ''Authorized at Level1'', Some ''Level1'') \<and>
   map_option lastActivity
     (auth_sessions_table (snd (check_auth_level 600000000 ''SESSION-1'' AUTH_LEVEL_1 bank1))
        ''SESSION-1'') = Some 600000000 \<and>
   map_option expiresAt
     (auth_sessions_table (snd (check_auth_level 600000000 ''SESSION-1'' AUTH_LEVEL_1 bank1))
        ''SESSION-1'') = Some 1800000000 \<and>
   600000000 + minutes (session_timeout_minutes bank1) = 2400000000 \<and>
   get_session 1800000001 (snd (check_auth_level 600000000 ''SESSION-1'' AUTH_LEVEL_1 bank1))
     ''SESSION-1'' = None"
proof -
  have live: "get_session 600000000 bank1 ''SESSION-1'' =
                auth_sessions_table bank1 ''SESSION-1''"
    by (simp add: get_session_def bank1_session)
  have lvl: "level_hierarchy (authLevel session1) \<ge> level_hierarchy AUTH_LEVEL_1"
    by (simp add: level_hierarchy_values AUTH_LEVEL_1_def)
  have step: "check_auth_level 600000000 ''SESSION-1'' AUTH_LEVEL_1 bank1 =
           ((True, ''Authorized at Level1'', Some ''Level1''),
            update_last_activity 600000000 ''SESSION-1'' bank1)"
    using check_auth_level_authorized [of 600000000 bank1 "''SESSION-1''" session1 AUTH_LEVEL_1]
      live lvl
    by (simp add: bank1_session)
  have after: "auth_sessions_table (update_last_activity 600000000 ''SESSION-1'' bank1)
                 ''SESSION-1'' =
               Some (session1\<lparr>lastActivity := 600000000\<rparr>)"
    by (simp add: update_last_activity_def update_session_def bank1_session)
  have gone: "get_session 1800000001 (update_last_activity 600000000 ''SESSION-1'' bank1)
                ''SESSION-1'' = None"
    by (simp add: get_session_def after bank1_session)
  show ?thesis
    by (simp add: step update_last_activity_expiresAt after gone bank1_session bank1_config
        minutes_def)
qed

text \<open>The healthcare manager's \<open>update_activity\<close> does move the expiry of a live
  session to \<open>now\<close> plus the timeout, and the warning time with it.\<close>

lemma update_activity_extends:
  assumes "sessions_table w sid = Some s" "now \<le> hs_expiresAt s"
  shows "fst (update_activity lib now aid sid w) \<and>
         sessions_table (snd (update_activity lib now aid sid w)) sid =
           Some (s\<lparr>hs_lastActivity := now,
                   hs_expiresAt := now + minutes SESSION_TIMEOUT_MINUTES,
                   warningAt := now + minutes SESSION_WARNING_MINUTES\<rparr>)"
  using assms
  by (simp add: update_activity_def hc_get_session_def hc_update_item_def Let_def)

section \<open>Trust levels\<close>

lemma customers_audit_log [simp]:
  "customers_table (audit_log now aid sid cid act res r lvl pii b) = customers_table b"
  by (simp add: audit_log_def print_line_def Let_def)

lemma customers_update_session [simp]:
  "customers_table (update_session sid upd b) = customers_table b"
  by (simp add: update_session_def split: option.splits)

lemma customers_print_line [simp]: "customers_table (print_line l b) = customers_table b"
  by (simp add: print_line_def)

lemma config_audit_log [simp]:
  "otp_expiry_minutes (audit_log now aid sid cid act res r lvl pii b) = otp_expiry_minutes b"
  by (simp add: audit_log_def print_line_def Let_def)

lemma config_update_session [simp]:
  "otp_expiry_minutes (update_session sid upd b) = otp_expiry_minutes b"
  by (simp add: update_session_def split: option.splits)

lemma config_print_line [simp]: "otp_expiry_minutes (print_line l b) = otp_expiry_minutes b"
  by (simp add: print_line_def)

lemma verify_otp_match:
  assumes "get_session now b sid = Some s" "otpSent s" "otpExpiry s = Some e" "now \<le> e"
      and "otpCode s = Some code"
  shows "verify_otp now aid sid code b =
     (Inr \<lparr>success = True, message = ''OTP verified. Authentication upgraded to Level 2.'',
           otp = None\<rparr>,
      audit_log now aid sid (customerId s) ''OTP_VERIFIED'' None AUDIT_RESULT_SUCCESS
        AUTH_LEVEL_2 False
        (update_session sid
           (\<lambda>s. s\<lparr>authLevel := AUTH_LEVEL_2, mfaCompleted := True,
                    authFactors := [''Phone'', ''OTP'']\<rparr>) b))"
  using assms by (simp add: verify_otp_def Let_def)

lemma verify_knowledge_match:
  assumes "get_session now b sid = Some s"
      and "find (\<lambda>c. c_customerId c = customerId s) (customers_table b) = Some cust"
      and "map_of (securityQuestions cust) q = Some (sha answer)"
  shows "verify_knowledge_answer sha now aid sid q answer b =
     (\<lparr>success = True,
        message = ''Knowledge verification successful. Authentication upgraded to Level 3.'',
        otp = None\<rparr>,
      audit_log now aid sid (customerId s) ''KNOWLEDGE_AUTH_SUCCESS'' None AUDIT_RESULT_SUCCESS
        AUTH_LEVEL_3 False
        (update_session sid
           (\<lambda>s. s\<lparr>authLevel := AUTH_LEVEL_3,
                    knowledgeAnswered := knowledgeAnswered s @ [q],
                    authFactors := [''Phone'', ''OTP'', ''Knowledge'']\<rparr>) b))"
  using assms by (simp add: verify_knowledge_answer_def Let_def)

lemma bank1_customers:
  "customers_table bank1 =
     [\<lparr>c_customerId = ''CUST-1'', c_phone = ''555-0100'', c_jurisdiction = None,
       securityQuestions = [(''mothersMaidenName'', example_sha ''smith'')]\<rparr>]"
  by (simp add: bank1_def bank0_def create_session_def Let_def)

lemma bank2_session:
  "auth_sessions_table bank2 ''SESSION-1'' =
     Some (session1\<lparr>otpSent := True, otpCode := Some ''123456'', otpExpiry := Some 300000001\<rparr>)"
proof -
  have live: "get_session 1 bank1 ''SESSION-1'' = Some session1"
    by (simp add: get_session_def bank1_session)
  show ?thesis
    unfolding bank2_def
    by (simp add: send_otp_Some [OF live] update_session_Some
        bank1_session bank1_config minutes_def str_nat_123456)
qed

lemma bank2_customers: "customers_table bank2 = customers_table bank1"
proof -
  have live: "get_session 1 bank1 ''SESSION-1'' = Some session1"
    by (simp add: get_session_def bank1_session)
  show ?thesis
    unfolding bank2_def by (simp add: send_otp_Some [OF live])
qed

lemma bank3_step:
  "verify_otp 2 ''AUDIT-2'' ''SESSION-1'' ''123456'' bank2 =
     (Inr \<lparr>success = True, message = ''OTP verified. Authentication upgraded to Level 2.'',
           otp = None\<rparr>, bank3)"
proof -
  have live: "get_session 2 bank2 ''SESSION-1'' =
      Some (session1\<lparr>otpSent := True, otpCode := Some ''123456'', otpExpiry := Some 300000001\<rparr>)"
    by (simp add: get_session_def bank2_session)
  show ?thesis
    unfolding bank3_def
    by (simp add: verify_otp_match [OF live, of 300000001 "''123456''"])
qed

lemma bank3_session:
  "auth_sessions_table bank3 ''SESSION-1'' =
     Some (session1\<lparr>otpSent := True, otpCode := Some ''123456'', otpExpiry := Some 300000001,
                    authLevel := ''Level2'', mfaCompleted := True,
                    authFactors := [''Phone'', ''OTP'']\<rparr>)"
proof -
  have live: "get_session 2 bank2 ''SESSION-1'' =
      Some (session1\<lparr>otpSent := True, otpCode := Some ''123456'', otpExpiry := Some 300000001\<rparr>)"
    by (simp add: get_session_def bank2_session)
  show ?thesis
    unfolding bank3_def
    by (simp add: verify_otp_match [OF live, of 300000001 "''123456''"] update_session_Some
        bank2_session AUTH_LEVEL_2_def)
qed

lemma bank3_customers: "customers_table bank3 = customers_table bank1"
proof -
  have live: "get_session 2 bank2 ''SESSION-1'' =
      Some (session1\<lparr>otpSent := True, otpCode := Some ''123456'', otpExpiry := Some 300000001\<rparr>)"
    by (simp add: get_session_def bank2_session)
  show ?thesis
    unfolding bank3_def
    by (simp add: verify_otp_match [OF live, of 300000001 "''123456''"] bank2_customers)
qed

lemma bank4_session:
  "auth_sessions_table bank4 ''SESSION-1'' =
     Some (session1\<lparr>otpSent := True, otpCode := Some ''123456'', otpExpiry := Some 300000001,
                    authLevel := ''Level3'', mfaCompleted := True,
                    authFactors := [''Phone'', ''OTP'', ''Knowledge''],
                    knowledgeAnswered := [''mothersMaidenName'']\<rparr>)"
proof -
  have live: "get_session 3 bank3 ''SESSION-1'' =
      Some (session1\<lparr>otpSent := True, otpCode := Some ''123456'', otpExpiry := Some 300000001,
                    authLevel := ''Level2'', mfaCompleted := True,
                    authFactors := [''Phone'', ''OTP'']\<rparr>)"
    by (simp add: get_session_def bank3_session)
  show ?thesis
    unfolding bank4_def
    by (simp add: verify_knowledge_match [OF live, where sha = example_sha]
        bank3_customers bank1_customers update_session_Some bank3_session AUTH_LEVEL_3_def
        session1_def)
qed

lemma bank5_step:
  "verify_otp 4 ''AUDIT-4'' ''SESSION-1'' ''123456'' bank4 =
     (Inr \<lparr>success = True, message = ''OTP verified. Authentication upgraded to Level 2.'',
           otp = None\<rparr>, bank5)"
proof -
  have live: "get_session 4 bank4 ''SESSION-1'' = auth_sessions_table bank4 ''SESSION-1''"
    by (simp add: get_session_def bank4_session)
  show ?thesis
    unfolding bank5_def
    by (simp add: verify_otp_match [OF live [unfolded bank4_session], of 300000001 "''123456''"])
qed

lemma bank5_session:
  "auth_sessions_table bank5 ''SESSION-1'' =
     Some (session1\<lparr>otpSent := True, otpCode := Some ''123456'', otpExpiry := Some 300000001,
                    authLevel := ''Level2'', mfaCompleted := True,
                    authFactors := [''Phone'', ''OTP''],
                    knowledgeAnswered := [''mothersMaidenName'']\<rparr>)"
proof -
  have live: "get_session 4 bank4 ''SESSION-1'' = auth_sessions_table bank4 ''SESSION-1''"
    by (simp add: get_session_def bank4_session)
  show ?thesis
    unfolding bank5_def
    by (simp add: verify_otp_match [OF live [unfolded bank4_session], of 300000001 "''123456''"]
        update_session_Some bank4_session AUTH_LEVEL_2_def session1_def)
qed

text \<open>
  C1, at a session that has reached Level 3. In the conversation of the example
  (code sent, code verified, security question answered) the session stands at
  Level 3 with the code still stored and not expired; verifying the code once
  more succeeds, reports an upgrade to Level 2, and leaves the session at
  Level 2 with the factors Phone and OTP: the level has gone down.
\<close>

theorem verify_otp_lowers_level3:
  "map_option authLevel (auth_sessions_table bank4 ''SESSION-1'') = Some AUTH_LEVEL_3 \<and>
   fst (verify_otp 4 ''AUDIT-4'' ''SESSION-1'' ''123456'' bank4) =
     Inr \<lparr>success = True, message = ''OTP verified. Authentication upgraded to Level 2.'',
          otp = None\<rparr> \<and>
   map_option authLevel
     (auth_sessions_table (snd (verify_otp 4 ''AUDIT-4'' ''SESSION-1'' ''123456'' bank4))
        ''SESSION-1'') = Some AUTH_LEVEL_2 \<and>
   map_option authFactors
     (auth_sessions_table (snd (verify_otp 4 ''AUDIT-4'' ''SESSION-1'' ''123456'' bank4))
        ''SESSION-1'') = Some [''Phone'', ''OTP''] \<and>
   level_hierarchy AUTH_LEVEL_2 < level_hierarchy AUTH_LEVEL_3"
  by (simp add: bank5_step bank4_session bank5_session AUTH_LEVEL_3_def AUTH_LEVEL_2_def
      level_hierarchy_values)


text \<open>The healthcare manager's \<open>set_verified\<close> stores the level it is given, whatever
  the session's level was.\<close>

lemma set_verified_overwrites_level:
  assumes "sessions_table w sid = Some s"
  shows "map_option verificationLevel
           (sessions_table (snd (set_verified lib now aid sid user_id lvl w)) sid) = Some lvl"
  using assms
  by (simp add: set_verified_def hc_update_item_def hc_log_session_event_def Let_def)

section \<open>Step-up codes issued by the authorization check\<close>


lemma audit_logs_update_session [simp]:
  "audit_logs_table (update_session sid upd b) = audit_logs_table b"
  by (simp add: update_session_def split: option.splits)

lemma audit_logs_print_line [simp]: "audit_logs_table (print_line l b) = audit_logs_table b"
  by (simp add: print_line_def)










section \<open>The audit records' hash\<close>

lemma log_event_appends:
  "snd (log_event lib now aid et uid sid act rt rid phi succ dets ip tbl) =
     tbl @ [\<lparr>auditLogId = aid, timestamp = isoformat lib now @ ''Z'', eventType = et,
             userId = (case uid of None \<Rightarrow> ''ANONYMOUS''
                       | Some u \<Rightarrow> if u = [] then ''ANONYMOUS'' else u),
             h_sessionId = sid, action = act, resourceType = rt, resourceId = rid,
             phiAccessed = phi, h_success = succ, h_ipAddress = ip,
             details = (case dets of None \<Rightarrow> None
                        | Some d \<Rightarrow> if d = JObj [] then None else Some d),
             tamperHash = sha256_hexdigest lib
                            (hash_data aid (isoformat lib now @ ''Z'') et act uid sid),
             retentionDate = isoformat lib (now + days (365 * 6)) @ ''Z''\<rparr>]"
  by (simp add: log_event_def Let_def)

text \<open>
  \<open>log_event\<close> appends one record and leaves the earlier ones as they are; the
  stored \<open>tamperHash\<close> is the hash of the new record's \<open>auditLogId\<close>, \<open>timestamp\<close>,
  \<open>eventType\<close> and \<open>action\<close>, the \<open>user_id\<close> argument as an f-string prints it,
  and the \<open>sessionId\<close>. It is the same whatever the table held before and whatever
  the resource, the PHI flag, the success flag, the details and the IP address
  are.
\<close>

lemma log_event_hash_of_six_values:
  "\<exists>e. snd (log_event lib now aid et uid sid act rt rid phi succ dets ip tbl) = tbl @ [e] \<and>
     auditLogId e = aid \<and> timestamp e = isoformat lib now @ ''Z'' \<and> eventType e = et \<and>
     action e = act \<and> h_sessionId e = sid \<and>
     tamperHash e = sha256_hexdigest lib
        (auditLogId e @ timestamp e @ eventType e @ action e @ fmt_opt uid @ h_sessionId e) \<and>
     tamperHash (last (snd (log_event lib now aid et uid sid act rt' rid' phi' succ' dets' ip'
                              tbl'))) = tamperHash e"
  by (simp add: log_event_appends hash_data_def)

lemma clinic1_audit:
  "map tamperHash (audit_table clinic1) = [''sha:AUDIT-00ZSESSIONSESSION_CREATEDNoneSES-1'']"
  by (simp add: clinic1_def clinic0_def hc_create_session_def hc_log_session_event_def
      log_session_event_def log_event_appends hash_data_def fmt_opt_def example_lib_def
      example_sha_def str_nat.simps digit_char_def Let_def)

lemma clinic1_last_hash:
  "tamperHash (last (audit_table clinic1)) = ''sha:AUDIT-00ZSESSIONSESSION_CREATEDNoneSES-1''"
  by (simp add: clinic1_def clinic0_def hc_create_session_def hc_log_session_event_def
      log_session_event_def log_event_appends hash_data_def fmt_opt_def example_lib_def
      example_sha_def str_nat.simps digit_char_def Let_def)

lemma clinic1_last_record:
  "auditLogId (last (audit_table clinic1)) = ''AUDIT-0'' \<and>
   timestamp (last (audit_table clinic1)) = ''0Z'' \<and>
   eventType (last (audit_table clinic1)) = ''SESSION'' \<and>
   action (last (audit_table clinic1)) = ''SESSION_CREATED'' \<and>
   userId (last (audit_table clinic1)) = ''ANONYMOUS'' \<and>
   h_sessionId (last (audit_table clinic1)) = ''SES-1''"
  by (simp add: clinic1_def clinic0_def hc_create_session_def hc_log_session_event_def
      log_session_event_def log_event_appends example_lib_def
      str_nat.simps digit_char_def Let_def)

text \<open>
  C2. The module of \<open>log_event\<close> promises tamper-proof logs and the function calls
  its token a tamper-detection hash, but the token is no link of a chain and
  covers six values only. With an injective hash function: a record appended after
  the record of \<open>clinic1\<close> gets the token it gets on an empty table, also with the
  success and PHI flags changed, and the token is not the hash of the previous
  token followed by the record's fields; and the record of \<open>clinic1\<close>, written for
  no user, stores the user \<open>ANONYMOUS\<close> under a token taken over \<open>None\<close>, so that
  the token recomputed from the six stored fields of the untouched record is not
  the stored one.
\<close>

theorem log_event_hash_ignores_history:
  "tamperHash (last (snd (log_event example_lib 5 ''AUDIT-2'' ''AUTH'' (Some ''P1'') ''SES-1''
      ''VERIFY_PHONE'' None None False True None None (audit_table clinic1)))) =
     ''sha:AUDIT-25ZAUTHVERIFY_PHONEP1SES-1'' \<and>
   tamperHash (last (snd (log_event example_lib 5 ''AUDIT-2'' ''AUTH'' (Some ''P1'') ''SES-1''
      ''VERIFY_PHONE'' None None True False None None []))) =
     ''sha:AUDIT-25ZAUTHVERIFY_PHONEP1SES-1'' \<and>
   map tamperHash (audit_table clinic1) = [''sha:AUDIT-00ZSESSIONSESSION_CREATEDNoneSES-1''] \<and>
   tamperHash (last (snd (log_event example_lib 5 ''AUDIT-2'' ''AUTH'' (Some ''P1'') ''SES-1''
      ''VERIFY_PHONE'' None None False True None None (audit_table clinic1)))) \<noteq>
     sha256_hexdigest example_lib
       (tamperHash (last (audit_table clinic1)) @
        hash_data ''AUDIT-2'' (isoformat example_lib 5 @ ''Z'') ''AUTH'' ''VERIFY_PHONE''
          (Some ''P1'') ''SES-1'') \<and>
   userId (last (audit_table clinic1)) = ''ANONYMOUS'' \<and>
   tamperHash (last (audit_table clinic1)) \<noteq>
     sha256_hexdigest example_lib
       (auditLogId (last (audit_table clinic1)) @ timestamp (last (audit_table clinic1)) @
        eventType (last (audit_table clinic1)) @ action (last (audit_table clinic1)) @
        userId (last (audit_table clinic1)) @ h_sessionId (last (audit_table clinic1)))"
  by (simp add: log_event_appends hash_data_def fmt_opt_def example_lib_def example_sha_def
      str_nat.simps digit_char_def clinic1_audit clinic1_last_hash clinic1_last_record)

section \<open>Club call center: tool names\<close>















section \<open>Club call center: interruption\<close>














text \<open>A task on an active stream sends its three events and leaves the table.\<close>

lemma send_tool_events_active:
  "is_active st \<Longrightarrow>
   send_tool_events cn use_id res st =
     st\<lparr>sent_events := sent_events st @
          [ToolContentStart cn use_id, ToolResultEvent cn res, ToolContentEnd cn]\<rparr>"
  by (simp add: send_tool_events_def send_raw_event_def)

lemma run_tool_task_active:
  assumes "is_active st" "pending_tool_tasks st cn = Some t"
  shows "run_tool_task loads execute cn st =
     st\<lparr>sent_events := sent_events st @
          [ToolContentStart cn (task_tool_use_id t),
           ToolResultEvent cn
             (case club_process_tool_async loads execute (task_tool_name t)
                     (task_tool_content t) of
                Inr res \<Rightarrow> res
              | Inl e \<Rightarrow> ErrorResult (''Tool execution failed: '' @ str_error e)),
           ToolContentEnd cn],
        pending_tool_tasks := (pending_tool_tasks st)(cn := None)\<rparr>"
  using assms
  by (simp add: run_tool_task_def execute_tool_and_send_result_def
      send_tool_events_active Let_def split: sum.splits)

text \<open>The values of the example streams.\<close>

lemma club_stream1_value:
  "club_stream1 =
     club_stream0\<lparr>toolUseContent := Some NoContent, toolName := ''checkInventoryTool'',
        toolUseId := ''tu-1'',
        pending_tool_tasks := [''task-1'' \<mapsto> \<lparr>task_tool_name = ''checkInventoryTool'',
            task_tool_content = Some NoContent, task_tool_use_id = ''tu-1''\<rparr>],
        audio_output_queue := [''aa'', ''bb'', ''cc''],
        output_queue := [ToolUse ''checkInventoryTool'' ''tu-1'' NoContent,
            ContentEnd (Some ''TOOL''), AudioOutput ''aa'', AudioOutput ''bb'', AudioOutput ''cc'']\<rparr>"
  by (simp add: club_stream1_def club_stream0_def process_response_def handle_tool_request_def)










section \<open>Banking: tool calls in the event loop\<close>

lemma awaiting_takes_no_event:
  "process_stream_events (st\<lparr>pump := AwaitingTool tu\<rparr>) = st\<lparr>pump := AwaitingTool tu\<rparr>"
  by (simp add: process_stream_events_def)

lemma stopped_takes_no_event:
  "process_stream_events (st\<lparr>pump := Stopped e\<rparr>) = st\<lparr>pump := Stopped e\<rparr>"
  by (simp add: process_stream_events_def)

lemma bank_stream1_value: "bank_stream1 = bank_stream0\<lparr>pump := AwaitingTool balance_use\<rparr>"
  by (simp add: bank_stream1_def bank_stream0_def deliver_def process_stream_events_def)

lemma bank_stream2_value:
  "bank_stream2 = bank_stream0\<lparr>pump := AwaitingTool balance_use,
                     unread := [ModelOutput [AudioItem ''aa''] None]\<rparr>"
  by (simp add: bank_stream2_def bank_stream1_value bank_stream0_def deliver_def
      process_stream_events_def)

lemma balance_tool_lookup:
  "example_tools (normalize_tool_name (tu_name balance_use)) = Some CheckBalanceTool"
  by (simp add: example_tools_def balance_use_def normalize_tool_name_def py_lower_def
      lower_char_def replace_spaces_def)

lemma balance_not_authenticate:
  "normalize_tool_name (tu_name balance_use) \<noteq> TOOL_AUTHENTICATE"
  by (simp add: balance_use_def normalize_tool_name_def py_lower_def
      lower_char_def replace_spaces_def TOOL_AUTHENTICATE_def)

lemma balance_input: "content_data_of loads (tu_input balance_use) = Inr (JObj [])"
  by (simp add: content_data_of_def balance_use_def)

lemma bank_run_tool_ok:
  "bank_run_tool loads example_tools ok_execute (tu_name balance_use) (tu_input balance_use) cur =
     (Inr (HandlerResult (JObj [(''balance'', JStr ''100.00'')])), cur)"
  by (simp add: bank_run_tool_def balance_input balance_tool_lookup balance_not_authenticate
      ok_execute_def Let_def)

lemma bank_run_tool_raises:
  "bank_run_tool loads example_tools failing_execute (tu_name balance_use) (tu_input balance_use)
     cur = (Inl (HandlerError ''ServiceUnavailable''), cur)"
  by (simp add: bank_run_tool_def balance_input balance_tool_lookup failing_execute_def Let_def)

text \<open>
  C6, as the banking stream manager has it. Standing in the \<open>await\<close> of the tool
  processor, \<open>process_stream_events\<close> takes no event. In the example the tool use
  puts it there; the audio event delivered next stays unread and its audio is not
  queued, however often the coroutine is scheduled; the audio is queued only
  after the handler has returned.
\<close>

theorem banking_pump_awaits_tool_inline:
  "process_stream_events (st\<lparr>pump := AwaitingTool tu\<rparr>) = st\<lparr>pump := AwaitingTool tu\<rparr> \<and>
   pump bank_stream1 = AwaitingTool balance_use \<and>
   bs_output_queue bank_stream2 = [] \<and>
   unread bank_stream2 = [ModelOutput [AudioItem ''aa''] None] \<and>
   process_stream_events bank_stream2 = bank_stream2 \<and>
   bs_output_queue
     (process_stream_events (tool_await_ends loads example_tools ok_execute bank_stream2)) =
     [''aa'']"
proof -
  have ends: "tool_await_ends loads example_tools ok_execute bank_stream2 =
      bank_stream2\<lparr>pump := Pumping,
         bs_sent := [(''tu-1'', HandlerResult (JObj [(''balance'', JStr ''100.00'')]))]\<rparr>"
    by (simp add: tool_await_ends_def bank_stream2_value bank_stream0_def bank_run_tool_ok)
       (simp add: balance_use_def)
  show ?thesis
    by (simp add: awaiting_takes_no_event bank_stream1_value ends)
       (simp add: bank_stream2_value bank_stream0_def process_stream_events_def)
qed

lemma bank_run_tool_lets_exception_through:
  "bank_run_tool loads (tools(normalize_tool_name n \<mapsto> t)) (\<lambda>t cur c. Inl e) n content cur =
     (Inl (case content_data_of loads content of Inl e' \<Rightarrow> e' | Inr d \<Rightarrow> e), cur)"
  by (simp add: bank_run_tool_def Let_def split: sum.splits)

lemma tool_await_ends_with_exception:
  "tool_await_ends loads (tools(normalize_tool_name (tu_name tu) \<mapsto> t)) (\<lambda>t cur c. Inl e)
     (st\<lparr>pump := AwaitingTool tu\<rparr>) =
   st\<lparr>pump := Stopped (case content_data_of loads (tu_input tu) of
                          Inl e' \<Rightarrow> e' | Inr d \<Rightarrow> e)\<rparr>"
  by (simp add: tool_await_ends_def bank_run_tool_lets_exception_through)

text \<open>
  C7, as the banking tool processor has it. An exception of a registered tool's
  handler leaves \<open>_run_tool\<close> as an exception (that of \<open>json.loads\<close>, if the
  content string made it raise first, else the handler's own); the \<open>await\<close> in
  \<open>process_stream_events\<close> ends with it and the coroutine is left, taking no event
  any more. In the example no tool result is sent and the event that was waiting
  is never taken.
\<close>

theorem banking_handler_fault_stops_pump:
  "bank_run_tool loads (tools(normalize_tool_name n \<mapsto> t)) (\<lambda>t cur c. Inl e) n content cur =
     (Inl (case content_data_of loads content of Inl e' \<Rightarrow> e' | Inr d \<Rightarrow> e), cur) \<and>
   bank_run_tool loads (tools(normalize_tool_name n \<mapsto> t)) (\<lambda>t cur c. Inl e) n NoContent cur =
     (Inl e, cur) \<and>
   bank_run_tool loads (tools(normalize_tool_name n \<mapsto> t)) (\<lambda>t cur c. Inl e) n (ContentObj j) cur =
     (Inl e, cur) \<and>
   tool_await_ends loads (tools(normalize_tool_name (tu_name tu) \<mapsto> t)) (\<lambda>t cur c. Inl e)
     (st\<lparr>pump := AwaitingTool tu\<rparr>) =
     st\<lparr>pump := Stopped (case content_data_of loads (tu_input tu) of
                            Inl e' \<Rightarrow> e' | Inr d \<Rightarrow> e)\<rparr> \<and>
   process_stream_events (st\<lparr>pump := Stopped e\<rparr>) = st\<lparr>pump := Stopped e\<rparr> \<and>
   fst (bank_run_tool loads example_tools failing_execute (tu_name balance_use)
          (tu_input balance_use) cur) = Inl (HandlerError ''ServiceUnavailable'') \<and>
   pump (tool_await_ends loads example_tools failing_execute bank_stream2) =
     Stopped (HandlerError ''ServiceUnavailable'') \<and>
   bs_sent (tool_await_ends loads example_tools failing_execute bank_stream2) = [] \<and>
   unread (tool_await_ends loads example_tools failing_execute bank_stream2) =
     [ModelOutput [AudioItem ''aa''] None] \<and>
   process_stream_events (tool_await_ends loads example_tools failing_execute bank_stream2) =
     tool_await_ends loads example_tools failing_execute bank_stream2"
proof -
  have ends: "tool_await_ends loads example_tools failing_execute bank_stream2 =
      bank_stream2\<lparr>pump := Stopped (HandlerError ''ServiceUnavailable'')\<rparr>"
    by (simp add: tool_await_ends_def bank_stream2_value bank_stream0_def bank_run_tool_raises)
  have direct: "content_data_of loads NoContent = Inr (JObj [])"
      "content_data_of loads (ContentObj j) = Inr j"
    by (simp_all add: content_data_of_def)
  show ?thesis
    by (simp add: ends stopped_takes_no_event bank_run_tool_raises
          bank_run_tool_lets_exception_through tool_await_ends_with_exception direct)
       (simp add: bank_stream2_value bank_stream0_def)
qed

text \<open>
  The club's stream manager, for comparison: after the tool's content end the task
  is pending, nothing of it has run or been sent, and the audio outputs behind it
  are queued; and a fault of the tool processor in a task becomes an error result
  sent to the model.
\<close>

lemma club_pump_goes_on:
  "audio_output_queue club_stream1 = [''aa'', ''bb'', ''cc''] \<and>
   pending_tool_tasks club_stream1 ''task-1'' \<noteq> None \<and>
   sent_events club_stream1 = []"
  by (simp add: club_stream1_value club_stream0_def)

lemma club_task_fault_becomes_error_result:
  assumes "is_active st" "pending_tool_tasks st cn = Some t"
      and "club_process_tool_async loads execute (task_tool_name t) (task_tool_content t) = Inl e"
  shows "sent_events (run_tool_task loads execute cn st) =
           sent_events st @
             [ToolContentStart cn (task_tool_use_id t),
              ToolResultEvent cn (ErrorResult (''Tool execution failed: '' @ str_error e)),
              ToolContentEnd cn]"
  using assms(3) by (simp add: run_tool_task_active [OF assms(1,2)])

end
